theory Spec2Isabelle
  imports Main "HOL-Library.Word"
begin

unbundle bit_operations_syntax

section \<open>Python values used by the two programs\<close>

text \<open>
  The repository holds two command-line programs: \<^verbatim>\<open>podcast_search.py\<close> (interactive
  catalog search) and \<^verbatim>\<open>transcribe_podcast.py\<close> (download, transcribe, clean up).
  Python strings are modelled as \<^typ>\<open>string\<close>, one \<^typ>\<open>char\<close> per code point
  below 256; Python integers as \<^typ>\<open>int\<close>; bytes as lists of 8-bit words.
\<close>

type_synonym byte = "8 word"

subsection \<open>Exceptions\<close>

text \<open>
  The classes that decide which \<^verbatim>\<open>except\<close> clause fires. \<open>SystemExit\<close> and
  \<open>KeyboardInterrupt\<close> derive from \<open>BaseException\<close> only; everything else derives
  from \<open>Exception\<close>. The kinds of \<open>requests.exceptions.RequestException\<close> are
  kept apart because the handlers of the catalog calls test them in order.
\<close>

datatype req_kind =
    ConnectionError
  | ConnectTimeout
  | Timeout
  | HTTPError
  | RetryError
  | OtherRequestException

datatype exn =
    SystemExit int
  | KeyboardInterrupt
  | EOFError
  | ValueError string
  | TypeError string
  | AttributeError string
  | KeyError string
  | OSError string
  | RequestException req_kind string
  | OtherException string

fun is_Exception :: "exn \<Rightarrow> bool" where
  "is_Exception (SystemExit _) = False"
| "is_Exception KeyboardInterrupt = False"
| "is_Exception _ = True"

fun is_ValueError :: "exn \<Rightarrow> bool" where
  "is_ValueError (ValueError _) = True"
| "is_ValueError _ = False"

text \<open>\<^verbatim>\<open>str(e)\<close>: the message the exception carries.\<close>

fun exn_str :: "exn \<Rightarrow> string" where
  "exn_str (SystemExit c) = ''''"
| "exn_str KeyboardInterrupt = ''''"
| "exn_str EOFError = ''''"
| "exn_str (ValueError m) = m"
| "exn_str (TypeError m) = m"
| "exn_str (AttributeError m) = m"
| "exn_str (KeyError m) = m"
| "exn_str (OSError m) = m"
| "exn_str (RequestException k m) = m"
| "exn_str (OtherException m) = m"

subsection \<open>Strings: \<^verbatim>\<open>strip\<close>, \<^verbatim>\<open>lower\<close>, \<^verbatim>\<open>int\<close>, \<^verbatim>\<open>str\<close>\<close>

text \<open>Python's whitespace among the code points below 256.\<close>

definition py_isspace :: "char \<Rightarrow> bool" where
  "py_isspace c =
     (let n = (of_char c :: nat)
      in (9 \<le> n \<and> n \<le> 13) \<or> (28 \<le> n \<and> n \<le> 32) \<or> n = 133 \<or> n = 160)"

definition py_strip :: "string \<Rightarrow> string" where
  "py_strip s = rev (dropWhile py_isspace (rev (dropWhile py_isspace s)))"

definition py_lower_char :: "char \<Rightarrow> char" where
  "py_lower_char c =
     (let n = (of_char c :: nat)
      in if 65 \<le> n \<and> n \<le> 90 then char_of (n + 32)
         else if 192 \<le> n \<and> n \<le> 222 \<and> n \<noteq> 215 then char_of (n + 32)
         else c)"

definition py_lower :: "string \<Rightarrow> string" where
  "py_lower s = map py_lower_char s"

definition is_digit :: "char \<Rightarrow> bool" where
  "is_digit c = (let n = (of_char c :: nat) in 48 \<le> n \<and> n \<le> 57)"

definition digit_val :: "char \<Rightarrow> nat" where
  "digit_val c = of_char c - 48"

definition digit_char :: "nat \<Rightarrow> char" where
  "digit_char d = char_of (48 + d)"

text \<open>
  The digits after the first one of a base-10 literal: a digit, or one underscore
  followed by a digit (\<^verbatim>\<open>int("1_0") == 10\<close>; \<^verbatim>\<open>"1__0"\<close> and \<^verbatim>\<open>"1_"\<close> are errors).
\<close>

fun parse_digits :: "string \<Rightarrow> nat \<Rightarrow> nat option" where
  "parse_digits [] acc = Some acc"
| "parse_digits [c] acc =
     (if is_digit c then Some (10 * acc + digit_val c) else None)"
| "parse_digits (c # d # ds) acc =
     (if is_digit c then parse_digits (d # ds) (10 * acc + digit_val c)
      else if c = CHR ''_'' \<and> is_digit d then parse_digits ds (10 * acc + digit_val d)
      else None)"

text \<open>
  \<^verbatim>\<open>int(s)\<close> on a string. The whitespace it drops at both ends is narrower than that of
  \<^verbatim>\<open>str.strip\<close>: the separators 28 to 31 are not part of it. Then come an optional sign
  and the digits, at most 4300 of them (the default limit on conversions). \<open>None\<close>
  stands for the \<open>ValueError\<close> Python raises.
\<close>

definition int_isspace :: "char \<Rightarrow> bool" where
  "int_isspace c =
     (let n = (of_char c :: nat)
      in (9 \<le> n \<and> n \<le> 13) \<or> n = 32 \<or> n = 133 \<or> n = 160)"

definition int_strip :: "string \<Rightarrow> string" where
  "int_strip s = rev (dropWhile int_isspace (rev (dropWhile int_isspace s)))"

definition py_int :: "string \<Rightarrow> int option" where
  "py_int s =
     (case int_strip s of
        [] \<Rightarrow> None
      | c # cs \<Rightarrow>
          (let neg = (c = CHR ''-'');
               body = (if c = CHR ''-'' \<or> c = CHR ''+'' then cs else c # cs)
           in case body of
                [] \<Rightarrow> None
              | d # ds \<Rightarrow>
                  if is_digit d \<and> length (filter is_digit body) \<le> 4300
                  then map_option (\<lambda>n. if neg then - int n else int n)
                         (parse_digits ds (digit_val d))
                  else None))"

text \<open>\<^verbatim>\<open>str(n)\<close> on an integer: decimal digits, with a minus sign below zero.\<close>

fun str_of_nat :: "nat \<Rightarrow> string" where
  "str_of_nat n =
     (if n < 10 then [digit_char n] else str_of_nat (n div 10) @ [digit_char (n mod 10)])"

declare str_of_nat.simps [simp del]

definition str_of_int :: "int \<Rightarrow> string" where
  "str_of_int i = (if i < 0 then CHR ''-'' # str_of_nat (nat (- i)) else str_of_nat (nat i))"

text \<open>\<^verbatim>\<open>s.encode('utf-8')\<close> for code points below 256: one byte below 128, two above.\<close>

definition utf8_char :: "char \<Rightarrow> byte list" where
  "utf8_char c =
     (let n = (of_char c :: nat)
      in if n < 128 then [of_nat n]
         else [of_nat (192 + n div 64), of_nat (128 + n mod 64)])"

definition utf8_encode :: "string \<Rightarrow> byte list" where
  "utf8_encode s = concat (map utf8_char s)"

subsection \<open>Parsed JSON\<close>

text \<open>
  What \<^verbatim>\<open>response.json()\<close> returns. A dict is the list of its items (keys distinct,
  as in a Python dict). Floating-point numbers are left out of the model.
\<close>

datatype json =
    JNull
  | JBool bool
  | JInt int
  | JStr string
  | JArr "json list"
  | JObj "(string \<times> json) list"

text \<open>Python truthiness, as used by \<^verbatim>\<open>if not podcasts\<close> and \<^verbatim>\<open>if categories\<close>.\<close>

fun truthy :: "json \<Rightarrow> bool" where
  "truthy JNull = False"
| "truthy (JBool b) = b"
| "truthy (JInt i) = (i \<noteq> 0)"
| "truthy (JStr s) = (s \<noteq> [])"
| "truthy (JArr xs) = (xs \<noteq> [])"
| "truthy (JObj kvs) = (kvs \<noteq> [])"

text \<open>\<^verbatim>\<open>d.get(key, default)\<close>: only a dict has the method.\<close>

fun py_get :: "json \<Rightarrow> string \<Rightarrow> json \<Rightarrow> exn + json" where
  "py_get (JObj kvs) k dflt = Inr (case map_of kvs k of None \<Rightarrow> dflt | Some v \<Rightarrow> v)"
| "py_get _ k dflt = Inl (AttributeError ''object has no attribute get'')"

subsection \<open>SHA-1 (\<^verbatim>\<open>hashlib.sha1(...).hexdigest()\<close>)\<close>

text \<open>
  The digest of FIPS 180-4 on 32-bit words: padding to a multiple of 64 bytes with the
  bit length in the last eight, eighty rounds per block, five words of state printed
  as lowercase hexadecimal.
\<close>

type_synonym word32 = "32 word"

type_synonym sha_state = "word32 \<times> word32 \<times> word32 \<times> word32 \<times> word32"

definition rotl :: "nat \<Rightarrow> word32 \<Rightarrow> word32" where
  "rotl n w = (push_bit n w) OR (drop_bit (32 - n) w)"

definition sha1_pad :: "byte list \<Rightarrow> byte list" where
  "sha1_pad m =
     (let l = length m;
          z = (119 - l mod 64) mod 64;
          bits = (of_nat (8 * l) :: 64 word)
      in m @ [128] @ replicate z 0 @ map (\<lambda>i. ucast (drop_bit (8 * (7 - i)) bits)) [0..<8])"

fun be32 :: "byte list \<Rightarrow> word32" where
  "be32 (a # b # c # d # _) =
     push_bit 24 (ucast a) OR push_bit 16 (ucast b) OR push_bit 8 (ucast c) OR ucast d"
| "be32 _ = 0"

fun words_of :: "nat \<Rightarrow> byte list \<Rightarrow> word32 list" where
  "words_of 0 bs = []"
| "words_of (Suc n) bs = be32 bs # words_of n (drop 4 bs)"

fun expand :: "nat \<Rightarrow> word32 list \<Rightarrow> word32 list" where
  "expand 0 ws = ws"
| "expand (Suc n) ws =
     (let k = length ws
      in expand n
           (ws @ [rotl 1 (ws ! (k - 3) XOR ws ! (k - 8) XOR ws ! (k - 14) XOR ws ! (k - 16))]))"

definition sha1_f :: "nat \<Rightarrow> word32 \<Rightarrow> word32 \<Rightarrow> word32 \<Rightarrow> word32" where
  "sha1_f i b c d =
     (if i < 20 then (b AND c) OR (NOT b AND d)
      else if i < 40 then b XOR c XOR d
      else if i < 60 then (b AND c) OR (b AND d) OR (c AND d)
      else b XOR c XOR d)"

definition sha1_k :: "nat \<Rightarrow> word32" where
  "sha1_k i =
     (if i < 20 then 0x5A827999 else if i < 40 then 0x6ED9EBA1
      else if i < 60 then 0x8F1BBCDC else 0xCA62C1D6)"

fun rounds :: "nat \<Rightarrow> word32 list \<Rightarrow> sha_state \<Rightarrow> sha_state" where
  "rounds i [] s = s"
| "rounds i (w # ws) (a, b, c, d, e) =
     rounds (Suc i) ws (rotl 5 a + sha1_f i b c d + e + sha1_k i + w, a, rotl 30 b, c, d)"

definition compress :: "sha_state \<Rightarrow> byte list \<Rightarrow> sha_state" where
  "compress h blk =
     (case h of (h0, h1, h2, h3, h4) \<Rightarrow>
        (case rounds 0 (expand 64 (words_of 16 blk)) h of (a, b, c, d, e) \<Rightarrow>
           (h0 + a, h1 + b, h2 + c, h3 + d, h4 + e)))"

fun blocks :: "nat \<Rightarrow> byte list \<Rightarrow> sha_state \<Rightarrow> sha_state" where
  "blocks 0 bs h = h"
| "blocks (Suc n) bs h = blocks n (drop 64 bs) (compress h (take 64 bs))"

definition sha1 :: "byte list \<Rightarrow> sha_state" where
  "sha1 m =
     (let p = sha1_pad m
      in blocks (length p div 64) p
           (0x67452301, 0xEFCDAB89, 0x98BADCFE, 0x10325476, 0xC3D2E1F0))"

definition hex_digits :: string where
  "hex_digits = ''0123456789abcdef''"

definition hex_char :: "nat \<Rightarrow> char" where
  "hex_char n = hex_digits ! (n mod 16)"

definition hex32 :: "word32 \<Rightarrow> string" where
  "hex32 w = map (\<lambda>i. hex_char (unat (drop_bit (4 * (7 - i)) w AND 15))) [0..<8]"

definition sha1_hexdigest :: "byte list \<Rightarrow> string" where
  "sha1_hexdigest m =
     (case sha1 m of (a, b, c, d, e) \<Rightarrow> hex32 a @ hex32 b @ hex32 c @ hex32 d @ hex32 e)"

section \<open>The world the programs run in\<close>

text \<open>
  \<open>Retry(total=3, backoff_factor=1, status_forcelist=[...])\<close> as \<^verbatim>\<open>create_session\<close>
  builds it; the adapter carrying it is mounted for both URL schemes, so every request
  of the session carries it.
\<close>

record retry_strategy =
  total :: nat
  backoff_factor :: nat
  status_forcelist :: "nat list"

definition create_session :: retry_strategy where
  "create_session = \<lparr>total = 3, backoff_factor = 1, status_forcelist = [429, 500, 502, 503, 504]\<rparr>"

text \<open>
  One HTTP GET as the call site writes it: the keyword arguments that are passed, and
  \<open>None\<close> for a \<^verbatim>\<open>timeout\<close> that is not.
\<close>

record request =
  req_url :: string
  req_headers :: "(string \<times> string option) list"
  req_params :: "(string \<times> json) list"
  req_timeout :: "nat option"
  req_stream :: bool
  req_retry :: "retry_strategy option"

text \<open>One step of \<^verbatim>\<open>response.iter_content\<close> followed by \<^verbatim>\<open>file.write\<close>:
  a chunk that arrives and is written, or an exception raised by either.\<close>

datatype stream_item = Data "byte list" | Fail exn

record response =
  status_code :: nat
  resp_headers :: "(string \<times> string) list"
  json_result :: "exn + json"
  body_stream :: "stream_item list"

text \<open>
  Everything outside the two programs: the environment variables, the clock
  (\<open>clock n\<close> is the \<open>n\<close>-th reading of \<^verbatim>\<open>int(time.time())\<close>), the network, the
  date library, the URL parser (which raises \<open>ValueError\<close> on some malformed URLs),
  file-system faults and the speech model. A fault is the
  exception the operation raises on that path, or \<open>None\<close> when it goes through:
  creating the output directory, opening a file for writing, writing it,
  \<^verbatim>\<open>Path.exists\<close> and \<^verbatim>\<open>Path.unlink\<close>.
\<close>

record env =
  API_KEY :: "string option"
  API_SECRET :: "string option"
  clock :: "nat \<Rightarrow> int"
  http_get :: "request \<Rightarrow> exn + response"
  fromtimestamp_strftime :: "int \<Rightarrow> exn + string"
  urlparse_path :: "string \<Rightarrow> exn + string"
  mkdir_fault :: "exn option"
  open_fault :: "string \<Rightarrow> exn option"
  write_fault :: "string \<Rightarrow> exn option"
  stat_fault :: "string \<Rightarrow> exn option"
  unlink_fault :: "string \<Rightarrow> exn option"
  load_model :: "string \<Rightarrow> exn option"
  transcribe :: "string \<Rightarrow> byte list option \<Rightarrow> exn + string"

text \<open>Output: a printed line is its f-string, values not yet rendered.\<close>

datatype piece = Lit string | Val json

datatype event =
    Stdout "piece list"
  | Stderr "piece list"
  | Prompt string
  | HttpGet request
  | Progress nat

section \<open>\<^verbatim>\<open>podcast_search.py\<close>\<close>

definition BASE_URL :: string where
  "BASE_URL = ''https://api.podcastindex.org/api/1.0''"

text \<open>An environment variable inside an f-string: \<open>None\<close> prints as \<^verbatim>\<open>None\<close>.\<close>

fun fmt_opt :: "string option \<Rightarrow> string" where
  "fmt_opt None = ''None''"
| "fmt_opt (Some s) = s"

definition get_headers ::
  "string option \<Rightarrow> string option \<Rightarrow> int \<Rightarrow> (string \<times> string option) list" where
  "get_headers key secret now =
     (let auth_date = str_of_int now;
          hash_input = fmt_opt key @ fmt_opt secret @ auth_date;
          auth_hash = sha1_hexdigest (utf8_encode hash_input)
      in [(''X-Auth-Date'', Some auth_date),
          (''X-Auth-Key'', key),
          (''Authorization'', Some auth_hash),
          (''User-Agent'', Some ''PodcastSearch/1.0'')])"

fun header_json :: "string \<times> string option \<Rightarrow> string \<times> json" where
  "header_json (k, None) = (k, JNull)"
| "header_json (k, Some v) = (k, JStr v)"

definition raise_for_status :: "response \<Rightarrow> exn option" where
  "raise_for_status r =
     (if 400 \<le> status_code r \<and> status_code r < 600
      then Some (RequestException HTTPError (str_of_nat (status_code r)))
      else None)"

definition search_request :: "env \<Rightarrow> nat \<Rightarrow> string \<Rightarrow> request" where
  "search_request env t term =
     \<lparr>req_url = BASE_URL @ ''/search/byterm'',
      req_headers = get_headers (API_KEY env) (API_SECRET env) (clock env t),
      req_params = [(''q'', JStr term)],
      req_timeout = Some 10,
      req_stream = False,
      req_retry = Some create_session\<rparr>"

definition episodes_request :: "env \<Rightarrow> nat \<Rightarrow> json \<Rightarrow> request" where
  "episodes_request env t feed_id =
     \<lparr>req_url = BASE_URL @ ''/episodes/byfeedid'',
      req_headers = get_headers (API_KEY env) (API_SECRET env) (clock env t),
      req_params = [(''id'', feed_id), (''max'', JInt 5)],
      req_timeout = Some 10,
      req_stream = False,
      req_retry = Some create_session\<rparr>"

text \<open>The body of the \<^verbatim>\<open>try\<close>: send, \<^verbatim>\<open>raise_for_status\<close>, parse, read one field.\<close>

definition fetch_field :: "env \<Rightarrow> request \<Rightarrow> string \<Rightarrow> exn + json" where
  "fetch_field env req field =
     (case http_get env req of
        Inl e \<Rightarrow> Inl e
      | Inr resp \<Rightarrow>
          (case raise_for_status resp of
             Some e \<Rightarrow> Inl e
           | None \<Rightarrow>
               (case json_result resp of
                  Inl e \<Rightarrow> Inl e
                | Inr body \<Rightarrow> py_get body field (JArr []))))"

text \<open>
  The three \<^verbatim>\<open>except\<close> clauses, in the source's order: \<open>ConnectionError\<close> (which
  \<open>ConnectTimeout\<close> also is), \<open>Timeout\<close>, then any \<open>RequestException\<close>. Any other
  exception is not caught.
\<close>

fun catalog_except :: "string \<Rightarrow> exn \<Rightarrow> event list \<times> (exn + json)" where
  "catalog_except what (RequestException k m) =
     (if k = ConnectionError \<or> k = ConnectTimeout then
        ([Stderr [Lit (''Connection error: Could not connect to '' @ BASE_URL
                        @ ''. Please check your internet connection.'')],
          Stderr [Lit (''Detailed error: '' @ m)]], Inr (JArr []))
      else if k = Timeout then
        ([Stderr [Lit ''Timeout error: The request took too long to complete.''],
          Stderr [Lit (''Detailed error: '' @ m)]], Inr (JArr []))
      else ([Stderr [Lit (''Error '' @ what @ '': '' @ m)]], Inr (JArr [])))"
| "catalog_except what e = ([], Inl e)"

text \<open>
  Both catalog calls return the lines printed, the clock readings used so far, and the
  value returned or the exception raised. \<^verbatim>\<open>search_podcasts\<close> reads the clock twice:
  once for the headers it prints, once for the headers it sends.
\<close>

definition search_podcasts :: "env \<Rightarrow> nat \<Rightarrow> string \<Rightarrow> event list \<times> nat \<times> (exn + json)" where
  "search_podcasts env t term =
     (let req = search_request env (Suc t) term;
          pre = [Stdout [Lit (''Making request to: '' @ BASE_URL @ ''/search/byterm'')],
                 Stdout [Lit ''With headers: '',
                         Val (JObj (map header_json
                                (get_headers (API_KEY env) (API_SECRET env) (clock env t))))],
                 HttpGet req]
      in case fetch_field env req ''feeds'' of
           Inr v \<Rightarrow> (pre, t + 2, Inr v)
         | Inl e \<Rightarrow> (pre @ fst (catalog_except ''searching podcasts'' e), t + 2,
                      snd (catalog_except ''searching podcasts'' e)))"

definition get_episodes :: "env \<Rightarrow> nat \<Rightarrow> json \<Rightarrow> event list \<times> nat \<times> (exn + json)" where
  "get_episodes env t feed_id =
     (let req = episodes_request env t feed_id;
          pre = [HttpGet req]
      in case fetch_field env req ''items'' of
           Inr v \<Rightarrow> (pre, t + 1, Inr v)
         | Inl e \<Rightarrow> (pre @ fst (catalog_except ''getting episodes'' e), t + 1,
                      snd (catalog_except ''getting episodes'' e)))"

subsection \<open>Results with output\<close>

text \<open>
  A computation that prints, and then returns a value or raises: the lines printed up to
  that point, and the value or the exception.
\<close>

type_synonym 'a res = "event list \<times> (exn + 'a)"

definition emit :: "event list \<Rightarrow> 'a res \<Rightarrow> 'a res" where
  "emit evs r = (evs @ fst r, snd r)"

definition NL :: string where
  "NL = [CHR 0x0A]"

definition QT :: string where
  "QT = [CHR 0x27]"

subsection \<open>Display\<close>

text \<open>\<^verbatim>\<open>x[:200]\<close> and \<^verbatim>\<open>x[:5]\<close>: strings and lists can be sliced, nothing else.\<close>

fun py_slice :: "nat \<Rightarrow> json \<Rightarrow> exn + json" where
  "py_slice n (JStr s) = Inr (JStr (take n s))"
| "py_slice n (JArr xs) = Inr (JArr (take n xs))"
| "py_slice n _ = Inl (TypeError ''object is not subscriptable'')"

text \<open>\<^verbatim>\<open>for x in v\<close>: a list gives its elements, a string its characters, a dict its keys.\<close>

fun py_iter :: "json \<Rightarrow> exn + json list" where
  "py_iter (JArr xs) = Inr xs"
| "py_iter (JStr s) = Inr (map (\<lambda>c. JStr [c]) s)"
| "py_iter (JObj kvs) = Inr (map (\<lambda>kv. JStr (fst kv)) kvs)"
| "py_iter _ = Inl (TypeError ''object is not iterable'')"

fun the_strs :: "json list \<Rightarrow> string list option" where
  "the_strs [] = Some []"
| "the_strs (JStr s # vs) = map_option (\<lambda>ss. s # ss) (the_strs vs)"
| "the_strs (_ # vs) = None"

fun join_comma :: "string list \<Rightarrow> string" where
  "join_comma [] = []"
| "join_comma [s] = s"
| "join_comma (s # t # ss) = s @ '', '' @ join_comma (t # ss)"

text \<open>The categories line: \<^verbatim>\<open>', '.join(categories.values())\<close>, or \<^verbatim>\<open>None\<close>.\<close>

definition categories_line :: "json \<Rightarrow> exn + event" where
  "categories_line categories =
     (if truthy categories then
        (case categories of
           JObj kvs \<Rightarrow>
             (case the_strs (map snd kvs) of
                Some ss \<Rightarrow> Inr (Stdout [Lit (''   Categories: '' @ join_comma ss)])
              | None \<Rightarrow> Inl (TypeError ''sequence item: expected str instance''))
         | _ \<Rightarrow> Inl (AttributeError ''object has no attribute values''))
      else Inr (Stdout [Lit ''   Categories: None'']))"

definition display_podcast :: "json \<Rightarrow> nat \<Rightarrow> unit res" where
  "display_podcast podcast index =
     (case py_get podcast ''title'' (JStr ''Unknown Title'') of
        Inl e \<Rightarrow> ([], Inl e)
      | Inr title \<Rightarrow>
          emit [Stdout [Lit (NL @ str_of_nat (index + 1) @ ''. ''), Val title]]
          (case py_get podcast ''author'' (JStr ''Unknown Author'') of
             Inl e \<Rightarrow> ([], Inl e)
           | Inr author \<Rightarrow>
               emit [Stdout [Lit ''   Author: '', Val author]]
               (case py_get podcast ''description'' (JStr ''No description'') of
                  Inl e \<Rightarrow> ([], Inl e)
                | Inr description \<Rightarrow>
                    (case py_slice 200 description of
                       Inl e \<Rightarrow> ([], Inl e)
                     | Inr d \<Rightarrow>
                         emit [Stdout [Lit ''   Description: '', Val d, Lit ''...'']]
                         (case py_get podcast ''categories'' (JObj []) of
                            Inl e \<Rightarrow> ([], Inl e)
                          | Inr categories \<Rightarrow>
                              (case categories_line categories of
                                 Inl e \<Rightarrow> ([], Inl e)
                               | Inr line \<Rightarrow> ([line], Inr ())))))))"

text \<open>
  \<^verbatim>\<open>format_date\<close>: \<^verbatim>\<open>datetime.fromtimestamp\<close> takes a number (a bool counts as one)
  and may itself raise; the date library is part of the environment.
\<close>

fun format_date :: "env \<Rightarrow> json \<Rightarrow> exn + string" where
  "format_date env (JInt i) = fromtimestamp_strftime env i"
| "format_date env (JBool b) = fromtimestamp_strftime env (if b then 1 else 0)"
| "format_date env _ = Inl (TypeError ''an integer is required'')"

text \<open>\<^verbatim>\<open>duration // 60\<close>: floor division on integers, a type error elsewhere.\<close>

fun floordiv60 :: "json \<Rightarrow> exn + json" where
  "floordiv60 (JInt d) = Inr (JInt (d div 60))"
| "floordiv60 (JBool b) = Inr (JInt 0)"
| "floordiv60 _ = Inl (TypeError ''unsupported operand type(s) for //'')"

definition display_episode :: "env \<Rightarrow> json \<Rightarrow> unit res" where
  "display_episode env episode =
     (case py_get episode ''title'' (JStr ''Unknown Title'') of
        Inl e \<Rightarrow> ([], Inl e)
      | Inr title \<Rightarrow>
          emit [Stdout [Lit (NL @ ''Title: ''), Val title]]
          (case py_get episode ''datePublished'' (JInt 0) of
             Inl e \<Rightarrow> ([], Inl e)
           | Inr ts \<Rightarrow>
               (case format_date env ts of
                  Inl e \<Rightarrow> ([], Inl e)
                | Inr date \<Rightarrow>
                    emit [Stdout [Lit (''Date: '' @ date)]]
                    (case py_get episode ''duration'' (JInt 0) of
                       Inl e \<Rightarrow> ([], Inl e)
                     | Inr dur \<Rightarrow>
                         (case floordiv60 dur of
                            Inl e \<Rightarrow> ([], Inl e)
                          | Inr mins \<Rightarrow>
                              emit [Stdout [Lit ''Duration: '', Val mins, Lit '' minutes'']]
                              (case py_get episode ''enclosureUrl'' (JStr ''No URL available'') of
                                 Inl e \<Rightarrow> ([], Inl e)
                               | Inr u \<Rightarrow> ([Stdout [Lit ''Download URL: '', Val u]], Inr ())))))))"

text \<open>The two \<^verbatim>\<open>for\<close> loops: stop at the first exception.\<close>

fun display_podcasts :: "json list \<Rightarrow> nat \<Rightarrow> unit res" where
  "display_podcasts [] i = ([], Inr ())"
| "display_podcasts (p # ps) i =
     (case display_podcast p i of
        (evs, Inl e) \<Rightarrow> (evs, Inl e)
      | (evs, Inr _) \<Rightarrow> emit evs (display_podcasts ps (Suc i)))"

fun display_episodes :: "env \<Rightarrow> json list \<Rightarrow> unit res" where
  "display_episodes env [] = ([], Inr ())"
| "display_episodes env (x # xs) =
     (case display_episode env x of
        (evs, Inl e) \<Rightarrow> (evs, Inl e)
      | (evs, Inr _) \<Rightarrow> emit evs (display_episodes env xs))"

subsection \<open>The interactive loop\<close>

definition search_prompt :: string where
  "search_prompt = NL @ ''Enter podcast search term (or '' @ QT @ ''q'' @ QT @ '' to quit): ''"

definition select_prompt :: string where
  "select_prompt = NL @ ''Select a podcast number (1-5) or '' @ QT @ ''b'' @ QT @ '' to go back: ''"

definition invalid_selection :: event where
  "invalid_selection = Stdout [Lit ''Invalid selection. Please enter a number between 1 and 5.'']"

definition not_a_number :: event where
  "not_a_number =
     Stdout [Lit (''Please enter a valid number or '' @ QT @ ''b'' @ QT @ '' to go back.'')]"

text \<open>\<^verbatim>\<open>selected_podcast['id']\<close>: a missing key raises.\<close>

fun py_item :: "json \<Rightarrow> string \<Rightarrow> exn + json" where
  "py_item (JObj kvs) k =
     (case map_of kvs k of None \<Rightarrow> Inl (KeyError k) | Some v \<Rightarrow> Inr v)"
| "py_item (JStr s) k = Inl (TypeError ''string indices must be integers'')"
| "py_item (JArr xs) k = Inl (TypeError ''list indices must be integers or slices'')"
| "py_item _ k = Inl (TypeError ''object is not subscriptable'')"

text \<open>
  The body of the selection \<^verbatim>\<open>try\<close> once the index is in range: print the title,
  fetch the episodes, display them. It returns the clock readings used as well.
\<close>

definition show_selected :: "env \<Rightarrow> nat \<Rightarrow> json \<Rightarrow> event list \<times> nat \<times> (exn + unit)" where
  "show_selected env t selected_podcast =
     (case py_get selected_podcast ''title'' JNull of
        Inl e \<Rightarrow> ([], t, Inl e)
      | Inr title \<Rightarrow>
          (case py_item selected_podcast ''id'' of
             Inl e \<Rightarrow> ([Stdout [Lit (NL @ ''Latest episodes for: ''), Val title]], t, Inl e)
           | Inr feed_id \<Rightarrow>
               (case get_episodes env t feed_id of
                  (evs, t', Inl e) \<Rightarrow>
                    (Stdout [Lit (NL @ ''Latest episodes for: ''), Val title] # evs, t', Inl e)
                | (evs, t', Inr episodes) \<Rightarrow>
                    (case py_iter episodes of
                       Inl e \<Rightarrow>
                         (Stdout [Lit (NL @ ''Latest episodes for: ''), Val title] # evs,
                          t', Inl e)
                     | Inr eps \<Rightarrow>
                         (Stdout [Lit (NL @ ''Latest episodes for: ''), Val title] # evs
                            @ fst (display_episodes env eps),
                          t', snd (display_episodes env eps))))))"

text \<open>
  The two nested \<^verbatim>\<open>while True\<close> loops of \<^verbatim>\<open>main\<close>, one function per loop. Standard
  input is the list of lines still to be read; reading past its end raises \<open>EOFError\<close>.
  \<^verbatim>\<open>break\<close> in the inner loop and the end of the outer body both go back to the
  search prompt. Only a truthy list reaches the inner loop: a truthy value of any other
  type has already raised at the slice or in \<^verbatim>\<open>display_podcast\<close>.
\<close>

fun search_loop :: "env \<Rightarrow> nat \<Rightarrow> string list \<Rightarrow> unit res"
  and select_loop :: "env \<Rightarrow> nat \<Rightarrow> json list \<Rightarrow> string list \<Rightarrow> unit res" where
  "search_loop env t [] = ([Prompt search_prompt], Inl EOFError)"
| "search_loop env t (line # rest) =
     (let search_term = py_strip line in
      if py_lower search_term = ''q'' then ([Prompt search_prompt], Inr ())
      else
        emit [Prompt search_prompt,
              Stdout [Lit (NL @ ''Searching for '' @ QT @ search_term @ QT @ ''...'')]]
        (case search_podcasts env t search_term of
           (evs, t', Inl e) \<Rightarrow> (evs, Inl e)
         | (evs, t', Inr podcasts) \<Rightarrow>
             emit evs
             (if \<not> truthy podcasts then
                emit [Stdout [Lit ''No podcasts found.'']] (search_loop env t' rest)
              else
                emit [Stdout [Lit (NL @ ''Top 5 Results:'')]]
                (case podcasts of
                   JArr ps \<Rightarrow>
                     (case display_podcasts (take 5 ps) 0 of
                        (devs, Inl e) \<Rightarrow> (devs, Inl e)
                      | (devs, Inr _) \<Rightarrow> emit devs (select_loop env t' ps rest))
                 | JStr s \<Rightarrow> ([], Inl (AttributeError ''object has no attribute get''))
                 | _ \<Rightarrow> ([], Inl (TypeError ''object is not subscriptable''))))))"
| "select_loop env t podcasts [] = ([Prompt select_prompt], Inl EOFError)"
| "select_loop env t podcasts (line # rest) =
     (let selection = py_strip line in
      emit [Prompt select_prompt]
      (if py_lower selection = ''b'' then search_loop env t rest
       else
         (case py_int selection of
            None \<Rightarrow> emit [not_a_number] (select_loop env t podcasts rest)
          | Some n \<Rightarrow>
              (let index = n - 1 in
               if 0 \<le> index \<and> index < min 5 (int (length podcasts)) then
                 (case show_selected env t (podcasts ! nat index) of
                    (evs, t', Inl e) \<Rightarrow>
                      (if is_ValueError e
                       then emit (evs @ [not_a_number]) (select_loop env t' podcasts rest)
                       else (evs, Inl e))
                  | (evs, t', Inr _) \<Rightarrow> emit evs (search_loop env t' rest))
               else emit [invalid_selection] (select_loop env t podcasts rest)))))"

text \<open>\<^verbatim>\<open>if not API_KEY\<close>: unset and empty both count as missing.\<close>

fun falsy_opt :: "string option \<Rightarrow> bool" where
  "falsy_opt None = True"
| "falsy_opt (Some s) = (s = [])"

definition podcast_search_main :: "env \<Rightarrow> string list \<Rightarrow> unit res" where
  "podcast_search_main env stdin =
     (if falsy_opt (API_KEY env) then
        ([Stderr [Lit ''Error: PODCAST_INDEX_API_KEY not found in .env file'']],
         Inl (SystemExit 1))
      else search_loop env 0 stdin)"

section \<open>\<^verbatim>\<open>transcribe_podcast.py\<close>\<close>

text \<open>\<^verbatim>\<open>requests.get(url, stream=True)\<close>: no session, no headers, no timeout argument.\<close>

definition audio_request :: "string \<Rightarrow> request" where
  "audio_request url =
     \<lparr>req_url = url, req_headers = [], req_params = [], req_timeout = None,
      req_stream = True, req_retry = None\<rparr>"

text \<open>The file system: the bytes stored under each path.\<close>

type_synonym files = "string \<Rightarrow> byte list option"

text \<open>
  \<^verbatim>\<open>int(response.headers.get('content-length', 0))\<close>: header names compare without
  case; a value that is not a number raises \<open>ValueError\<close>.
\<close>

definition content_length :: "response \<Rightarrow> exn + int" where
  "content_length r =
     (case filter (\<lambda>kv. py_lower (fst kv) = ''content-length'') (resp_headers r) of
        [] \<Rightarrow> Inr 0
      | kv # _ \<Rightarrow>
          (case py_int (snd kv) of
             None \<Rightarrow> Inl (ValueError ''invalid literal for int() with base 10'')
           | Some n \<Rightarrow> Inr n))"

text \<open>
  The download loop: each chunk is appended to the file and the progress bar advances by
  the number of bytes written. It returns the progress updates, the file's content, and
  the exception that stopped it, if any.
\<close>

fun write_chunks ::
  "stream_item list \<Rightarrow> byte list \<Rightarrow> nat \<Rightarrow> event list \<times> byte list \<times> exn option" where
  "write_chunks [] content n = ([], content, None)"
| "write_chunks (Data d # rest) content n =
     (case write_chunks rest (content @ d) (n + length d) of
        (evs, c, r) \<Rightarrow> (Progress (n + length d) # evs, c, r))"
| "write_chunks (Fail e # rest) content n = ([], content, Some e)"

text \<open>\<^verbatim>\<open>except Exception\<close> in \<^verbatim>\<open>download_audio\<close>: print and return \<open>False\<close>.\<close>

definition download_except ::
  "event list \<Rightarrow> files \<Rightarrow> exn \<Rightarrow> event list \<times> files \<times> (exn + bool)" where
  "download_except evs fs e =
     (if is_Exception e
      then (evs @ [Stderr [Lit (''Error downloading file: '' @ exn_str e)]], fs, Inr False)
      else (evs, fs, Inl e))"

definition download_audio ::
  "env \<Rightarrow> string \<Rightarrow> string \<Rightarrow> files \<Rightarrow> event list \<times> files \<times> (exn + bool)" where
  "download_audio env url output_path fs =
     (case http_get env (audio_request url) of
        Inl e \<Rightarrow> download_except [HttpGet (audio_request url)] fs e
      | Inr resp \<Rightarrow>
          (case raise_for_status resp of
             Some e \<Rightarrow> download_except [HttpGet (audio_request url)] fs e
           | None \<Rightarrow>
               (case content_length resp of
                  Inl e \<Rightarrow> download_except [HttpGet (audio_request url)] fs e
                | Inr total_size \<Rightarrow>
                    (case open_fault env output_path of
                       Some e \<Rightarrow> download_except [HttpGet (audio_request url)] fs e
                     | None \<Rightarrow>
                         (case write_chunks (body_stream resp) [] 0 of
                            (evs, content, Some e) \<Rightarrow>
                              download_except (HttpGet (audio_request url) # evs)
                                (fs(output_path \<mapsto> content)) e
                          | (evs, content, None) \<Rightarrow>
                              (HttpGet (audio_request url) # evs,
                               fs(output_path \<mapsto> content), Inr True))))))"

text \<open>The values the progress bar has shown after each update.\<close>

fun progress_of :: "event list \<Rightarrow> nat list" where
  "progress_of [] = []"
| "progress_of (Progress n # evs) = n # progress_of evs"
| "progress_of (_ # evs) = progress_of evs"

text \<open>\<^verbatim>\<open>os.path.basename\<close> and the root of \<^verbatim>\<open>os.path.splitext\<close> on a name without slash.\<close>

definition basename :: "string \<Rightarrow> string" where
  "basename p = rev (takeWhile (\<lambda>c. c \<noteq> CHR ''/'') (rev p))"

definition splitext_root :: "string \<Rightarrow> string" where
  "splitext_root p =
     (if CHR ''.'' \<in> set p then
        (let root = rev (tl (dropWhile (\<lambda>c. c \<noteq> CHR ''.'') (rev p)))
         in if list_ex (\<lambda>c. c \<noteq> CHR ''.'') root then root else p)
      else p)"

definition get_output_filename :: "env \<Rightarrow> string \<Rightarrow> exn + string" where
  "get_output_filename env url =
     (case urlparse_path env url of
        Inl e \<Rightarrow> Inl e
      | Inr path \<Rightarrow> Inr (splitext_root (basename path) @ ''_transcript.txt''))"

text \<open>
  \<^verbatim>\<open>transcribe_audio\<close>: load the model, transcribe, open the output file (which
  truncates it) and write the text, all inside one \<^verbatim>\<open>try\<close> with one handler.
\<close>

definition transcribe_except ::
  "event list \<Rightarrow> files \<Rightarrow> exn \<Rightarrow> event list \<times> files \<times> (exn + bool)" where
  "transcribe_except evs fs e =
     (if is_Exception e
      then (evs @ [Stderr [Lit (''Error during transcription: '' @ exn_str e)]], fs, Inr False)
      else (evs, fs, Inl e))"

definition transcribe_audio ::
  "env \<Rightarrow> string \<Rightarrow> string \<Rightarrow> string \<Rightarrow> files \<Rightarrow> event list \<times> files \<times> (exn + bool)" where
  "transcribe_audio env audio_path output_path model_name fs =
     (case load_model env model_name of
        Some e \<Rightarrow> transcribe_except [Stdout [Lit ''Loading Whisper model...'']] fs e
      | None \<Rightarrow>
          (case transcribe env model_name (fs audio_path) of
             Inl e \<Rightarrow>
               transcribe_except
                 [Stdout [Lit ''Loading Whisper model...''],
                  Stdout [Lit ''Transcribing audio... This may take a while.'']] fs e
           | Inr text \<Rightarrow>
               (case open_fault env output_path of
                  Some e \<Rightarrow>
                    transcribe_except
                      [Stdout [Lit ''Loading Whisper model...''],
                       Stdout [Lit ''Transcribing audio... This may take a while.'']] fs e
                | None \<Rightarrow>
                    (case write_fault env output_path of
                       Some e \<Rightarrow>
                         transcribe_except
                           [Stdout [Lit ''Loading Whisper model...''],
                            Stdout [Lit ''Transcribing audio... This may take a while.'']]
                           (fs(output_path \<mapsto> [])) e
                     | None \<Rightarrow>
                         ([Stdout [Lit ''Loading Whisper model...''],
                           Stdout [Lit ''Transcribing audio... This may take a while.'']],
                          fs(output_path \<mapsto> utf8_encode text), Inr True)))))"

text \<open>The parsed command line: \<^verbatim>\<open>url\<close>, \<^verbatim>\<open>--model\<close>, \<^verbatim>\<open>--output\<close>.\<close>

record args =
  arg_url :: string
  arg_model :: string
  arg_output :: "string option"

definition temp_audio :: string where
  "temp_audio = ''transcripts/temp_audio.mp3''"

text \<open>
  \<^verbatim>\<open>args.output if args.output else output_dir / get_output_filename(args.url)\<close>: the
  file name is derived from the URL only when no output path is given.
\<close>

definition output_path_of :: "env \<Rightarrow> args \<Rightarrow> exn + string" where
  "output_path_of env a =
     (if falsy_opt (arg_output a) then
        (case get_output_filename env (arg_url a) of
           Inl e \<Rightarrow> Inl e
         | Inr name \<Rightarrow> Inr (''transcripts/'' @ name))
      else Inr (fmt_opt (arg_output a)))"

text \<open>
  The \<^verbatim>\<open>try\<close> block of \<^verbatim>\<open>main\<close>, given the output path computed before it:
  \<^verbatim>\<open>sys.exit(1)\<close> raises \<open>SystemExit\<close>.
\<close>

definition main_try ::
  "env \<Rightarrow> args \<Rightarrow> string \<Rightarrow> files \<Rightarrow> event list \<times> files \<times> (exn + unit)" where
  "main_try env a output_path fs =
     (case download_audio env (arg_url a) temp_audio fs of
        (evs, fs1, Inl e) \<Rightarrow>
          (Stdout [Lit (''Downloading podcast from '' @ arg_url a)] # evs, fs1, Inl e)
      | (evs, fs1, Inr False) \<Rightarrow>
          (Stdout [Lit (''Downloading podcast from '' @ arg_url a)] # evs, fs1, Inl (SystemExit 1))
      | (evs, fs1, Inr True) \<Rightarrow>
          (case transcribe_audio env temp_audio output_path (arg_model a) fs1 of
             (evs2, fs2, Inl e) \<Rightarrow>
               (Stdout [Lit (''Downloading podcast from '' @ arg_url a)] # evs
                  @ Stdout [Lit (''Transcribing to '' @ output_path)] # evs2,
                fs2, Inl e)
           | (evs2, fs2, Inr False) \<Rightarrow>
               (Stdout [Lit (''Downloading podcast from '' @ arg_url a)] # evs
                  @ Stdout [Lit (''Transcribing to '' @ output_path)] # evs2,
                fs2, Inl (SystemExit 1))
           | (evs2, fs2, Inr True) \<Rightarrow>
               (Stdout [Lit (''Downloading podcast from '' @ arg_url a)] # evs
                  @ Stdout [Lit (''Transcribing to '' @ output_path)] # evs2
                  @ [Stdout [Lit (NL @ ''Transcription completed successfully!'')],
                     Stdout [Lit (''Transcript saved to: '' @ output_path)]],
                fs2, Inr ())))"

text \<open>
  The \<^verbatim>\<open>finally\<close> block: \<^verbatim>\<open>if temp_audio.exists(): temp_audio.unlink()\<close>. Either
  call can raise; the file then stays as it is and the exception is returned.
\<close>

definition cleanup :: "env \<Rightarrow> files \<Rightarrow> files \<times> exn option" where
  "cleanup env fs =
     (case stat_fault env temp_audio of
        Some e \<Rightarrow> (fs, Some e)
      | None \<Rightarrow>
          if fs temp_audio \<noteq> None then
            (case unlink_fault env temp_audio of
               Some e \<Rightarrow> (fs, Some e)
             | None \<Rightarrow> (fs(temp_audio := None), None))
          else (fs, None))"

text \<open>
  \<^verbatim>\<open>main\<close>. The command line is given as \<^verbatim>\<open>parse_args\<close> leaves it: the
  arguments, or the \<open>SystemExit\<close> it raises (status 2 for a rejected command line, 0
  after \<^verbatim>\<open>--help\<close>). Then \<^verbatim>\<open>mkdir(exist_ok=True)\<close> and the output path, each of which
  may raise; all this happens before the \<^verbatim>\<open>try\<close> statement. Then the \<^verbatim>\<open>try\<close> block,
  and the \<^verbatim>\<open>finally\<close> block whatever the \<^verbatim>\<open>try\<close> block did: an exception raised in
  the \<^verbatim>\<open>finally\<close> block replaces the outcome of the \<^verbatim>\<open>try\<close> block, otherwise that
  outcome stands. Directories are not part of \<^typ>\<open>files\<close>. The check of the
  \<^verbatim>\<open>whisper\<close> import at module level runs before \<^verbatim>\<open>main\<close> and is not part of it.
\<close>

definition transcribe_podcast_main ::
  "env \<Rightarrow> exn + args \<Rightarrow> files \<Rightarrow> event list \<times> files \<times> (exn + unit)" where
  "transcribe_podcast_main env parsed fs =
     (case parsed of
        Inl e \<Rightarrow> ([], fs, Inl e)
      | Inr a \<Rightarrow>
          (case mkdir_fault env of
             Some e \<Rightarrow> ([], fs, Inl e)
           | None \<Rightarrow>
               (case output_path_of env a of
                  Inl e \<Rightarrow> ([], fs, Inl e)
                | Inr output_path \<Rightarrow>
                    (case main_try env a output_path fs of
                       (evs, fs', r) \<Rightarrow>
                         (case cleanup env fs' of
                            (fs'', Some e) \<Rightarrow> (evs, fs'', Inl e)
                          | (fs'', None) \<Rightarrow> (evs, fs'', r))))))"

section \<open>Concrete environments\<close>

text \<open>
  Small worlds on which the properties below are exercised: a network given as a
  function, both credentials set, a clock that ticks once per reading, no file-system
  fault, and a speech model that answers \<^verbatim>\<open>hello world\<close>.
\<close>

definition demo_env :: "(request \<Rightarrow> exn + response) \<Rightarrow> env" where
  "demo_env net =
     \<lparr>API_KEY = Some ''key'', API_SECRET = Some ''secret'',
      clock = (\<lambda>n. 1700000000 + int n),
      http_get = net,
      fromtimestamp_strftime = (\<lambda>i. Inr ''2023-11-14''),
      urlparse_path = (\<lambda>u. Inr ''/ep.mp3''),
      mkdir_fault = None,
      open_fault = (\<lambda>p. None),
      write_fault = (\<lambda>p. None),
      stat_fault = (\<lambda>p. None),
      unlink_fault = (\<lambda>p. None),
      load_model = (\<lambda>m. None),
      transcribe = (\<lambda>m c. Inr ''hello world'')\<rparr>"

definition demo_response :: "nat \<Rightarrow> json \<Rightarrow> stream_item list \<Rightarrow> response" where
  "demo_response st body items =
     \<lparr>status_code = st, resp_headers = [], json_result = Inr body, body_stream = items\<rparr>"

definition timeout_net :: "request \<Rightarrow> exn + response" where
  "timeout_net r = Inl (RequestException Timeout ''timed out'')"

definition busy_net :: "request \<Rightarrow> exn + response" where
  "busy_net r = Inr (demo_response 503 JNull [])"

definition empty_net :: "request \<Rightarrow> exn + response" where
  "empty_net r = Inr (demo_response 200 (JObj []) [])"

definition audio_net :: "request \<Rightarrow> exn + response" where
  "audio_net r = Inr (demo_response 200 JNull [Data [1, 2], Data [3]])"

definition demo_args :: args where
  "demo_args =
     \<lparr>arg_url = ''https://host/ep.mp3'', arg_model = ''turbo'', arg_output = Some ''out.txt''\<rparr>"

text \<open>The key is set, the secret is not.\<close>

definition no_secret_env :: env where
  "no_secret_env = (demo_env timeout_net)\<lparr>API_SECRET := None\<rparr>"

text \<open>Opening any file but the temporary one fails; the speech model works.\<close>

definition persist_fail_env :: env where
  "persist_fail_env =
     (demo_env audio_net)
       \<lparr>open_fault :=
          (\<lambda>p. if p = temp_audio then None else Some (OSError ''Permission denied''))\<rparr>"

text \<open>Files can be opened; the speech model raises the same error.\<close>

definition asr_fail_env :: env where
  "asr_fail_env =
     (demo_env audio_net)\<lparr>transcribe := (\<lambda>m c. Inl (OSError ''Permission denied''))\<rparr>"

text \<open>The connection breaks after the first chunk.\<close>

definition broken_net :: "request \<Rightarrow> exn + response" where
  "broken_net r =
     Inr (demo_response 200 JNull
            [Data [1, 2], Fail (RequestException ConnectionError ''connection reset'')])"

text \<open>
  The output directory is not writable and holds a writable temporary file left by an
  earlier run: that file can be opened, no other file can be created, nothing can be
  removed. The transcript goes to the default path inside the directory.
\<close>

definition unwritable_dir_env :: env where
  "unwritable_dir_env =
     persist_fail_env\<lparr>unlink_fault := (\<lambda>p. Some (OSError ''Permission denied''))\<rparr>"

definition default_args :: args where
  "default_args =
     \<lparr>arg_url = ''https://host/ep.mp3'', arg_model = ''turbo'', arg_output = None\<rparr>"

definition stale_files :: files where
  "stale_files = [temp_audio \<mapsto> [9]]"

text \<open>One search result on display.\<close>

definition demo_podcasts :: "json list" where
  "demo_podcasts = [JObj [(''id'', JInt 7), (''title'', JStr ''T'')]]"

section \<open>Properties\<close>

subsection \<open>Request signing\<close>

lemma length_hex32: "length (hex32 w) = 8"
  by (simp add: hex32_def)

lemma hex_char_in: "hex_char n \<in> set hex_digits"
proof -
  have "n mod 16 < length hex_digits" by (simp add: hex_digits_def)
  then show ?thesis unfolding hex_char_def by (rule nth_mem)
qed

lemma set_hex32: "set (hex32 w) \<subseteq> set hex_digits"
  by (auto simp: hex32_def hex_char_in)

lemma length_sha1_hexdigest: "length (sha1_hexdigest m) = 40"
proof -
  obtain a b c d e where "sha1 m = (a, b, c, d, e)" by (metis prod_cases5)
  then show ?thesis by (simp add: sha1_hexdigest_def length_hex32)
qed

lemma set_sha1_hexdigest: "set (sha1_hexdigest m) \<subseteq> set hex_digits"
proof -
  obtain a b c d e where "sha1 m = (a, b, c, d, e)" by (metis prod_cases5)
  then show ?thesis using set_hex32 by (auto simp: sha1_hexdigest_def)
qed

text \<open>
  C3: with both credentials present, \<^verbatim>\<open>get_headers\<close> returns exactly four headers:
  \<open>X-Auth-Date\<close> is the clock reading as a decimal string, \<open>X-Auth-Key\<close> is the key,
  \<open>Authorization\<close> is the SHA-1 hex digest of key, secret and that same string
  concatenated, and \<open>User-Agent\<close> is the fixed \<^verbatim>\<open>PodcastSearch/1.0\<close>; the digest is 40
  characters long and every character is one of \<^verbatim>\<open>0123456789abcdef\<close>.
\<close>

theorem get_headers_signature:
  "get_headers (Some key) (Some secret) now =
     [(''X-Auth-Date'', Some (str_of_int now)),
      (''X-Auth-Key'', Some key),
      (''Authorization'', Some (sha1_hexdigest (utf8_encode (key @ secret @ str_of_int now)))),
      (''User-Agent'', Some ''PodcastSearch/1.0'')]
   \<and> length (sha1_hexdigest (utf8_encode (key @ secret @ str_of_int now))) = 40
   \<and> set (sha1_hexdigest (utf8_encode (key @ secret @ str_of_int now)))
       \<subseteq> set ''0123456789abcdef''"
  using set_sha1_hexdigest [of "utf8_encode (key @ secret @ str_of_int now)"]
  by (simp add: get_headers_def Let_def length_sha1_hexdigest hex_digits_def)

subsection \<open>Catalog calls degrade to the empty list\<close>

lemma catalog_except_request:
  "snd (catalog_except what (RequestException k m)) = Inr (JArr [])"
  by simp

lemma fetch_field_status:
  assumes "http_get env req = Inr r" "400 \<le> status_code r" "status_code r < 600"
  shows "\<exists>m. fetch_field env req field = Inl (RequestException HTTPError m)"
  using assms by (simp add: fetch_field_def raise_for_status_def)

lemma fetch_field_missing:
  assumes "http_get env req = Inr r" "raise_for_status r = None"
    "json_result r = Inr (JObj kvs)" "map_of kvs field = None"
  shows "fetch_field env req field = Inr (JArr [])"
  using assms by (simp add: fetch_field_def)

lemma search_podcasts_result:
  "snd (snd (search_podcasts env t term)) =
     (case fetch_field env (search_request env (Suc t) term) ''feeds'' of
        Inr v \<Rightarrow> Inr v
      | Inl e \<Rightarrow> snd (catalog_except ''searching podcasts'' e))"
  by (simp add: search_podcasts_def Let_def split: sum.splits)

lemma get_episodes_result:
  "snd (snd (get_episodes env t feed_id)) =
     (case fetch_field env (episodes_request env t feed_id) ''items'' of
        Inr v \<Rightarrow> Inr v
      | Inl e \<Rightarrow> snd (catalog_except ''getting episodes'' e))"
  by (simp add: get_episodes_def Let_def split: sum.splits)

lemma degrade_generic:
  assumes res: "\<And>e. fetch_field env req field = Inl e \<Longrightarrow> R = snd (catalog_except what e)"
    and ok: "\<And>v. fetch_field env req field = Inr v \<Longrightarrow> R = Inr v"
  shows "(\<forall>k m. http_get env req = Inl (RequestException k m) \<longrightarrow> R = Inr (JArr []))
       \<and> (\<forall>r. http_get env req = Inr r \<and> 400 \<le> status_code r \<and> status_code r < 600
              \<longrightarrow> R = Inr (JArr []))
       \<and> (\<forall>r kvs. http_get env req = Inr r \<and> raise_for_status r = None
              \<and> json_result r = Inr (JObj kvs) \<and> map_of kvs field = None
              \<longrightarrow> R = Inr (JArr []))"
proof (intro conjI allI impI)
  fix k m assume "http_get env req = Inl (RequestException k m)"
  then have "fetch_field env req field = Inl (RequestException k m)"
    by (simp add: fetch_field_def)
  from res [OF this] show "R = Inr (JArr [])" by simp
next
  fix r assume "http_get env req = Inr r \<and> 400 \<le> status_code r \<and> status_code r < 600"
  then obtain m where "fetch_field env req field = Inl (RequestException HTTPError m)"
    using fetch_field_status by blast
  from res [OF this] show "R = Inr (JArr [])" by simp
next
  fix r kvs
  assume "http_get env req = Inr r \<and> raise_for_status r = None
          \<and> json_result r = Inr (JObj kvs) \<and> map_of kvs field = None"
  then have "fetch_field env req field = Inr (JArr [])"
    using fetch_field_missing by blast
  from ok [OF this] show "R = Inr (JArr [])" .
qed

text \<open>
  C2: \<^verbatim>\<open>search_podcasts\<close> and \<^verbatim>\<open>get_episodes\<close> return the empty list, and raise
  nothing, when the request raises any \<open>RequestException\<close> (connection error, timeout,
  retries exhausted, ...), when the response has a status that \<^verbatim>\<open>raise_for_status\<close>
  rejects (400 to 599), and when the JSON body is an object without the \<^verbatim>\<open>feeds\<close>
  (resp. \<^verbatim>\<open>items\<close>) field.
\<close>

theorem catalog_degrade_to_empty:
  "(\<forall>k m. http_get env (search_request env (Suc t) term) = Inl (RequestException k m)
       \<longrightarrow> snd (snd (search_podcasts env t term)) = Inr (JArr []))
   \<and> (\<forall>r. http_get env (search_request env (Suc t) term) = Inr r
           \<and> 400 \<le> status_code r \<and> status_code r < 600
       \<longrightarrow> snd (snd (search_podcasts env t term)) = Inr (JArr []))
   \<and> (\<forall>r kvs. http_get env (search_request env (Suc t) term) = Inr r
           \<and> raise_for_status r = None \<and> json_result r = Inr (JObj kvs)
           \<and> map_of kvs ''feeds'' = None
       \<longrightarrow> snd (snd (search_podcasts env t term)) = Inr (JArr []))
   \<and> (\<forall>k m. http_get env (episodes_request env t fid) = Inl (RequestException k m)
       \<longrightarrow> snd (snd (get_episodes env t fid)) = Inr (JArr []))
   \<and> (\<forall>r. http_get env (episodes_request env t fid) = Inr r
           \<and> 400 \<le> status_code r \<and> status_code r < 600
       \<longrightarrow> snd (snd (get_episodes env t fid)) = Inr (JArr []))
   \<and> (\<forall>r kvs. http_get env (episodes_request env t fid) = Inr r
           \<and> raise_for_status r = None \<and> json_result r = Inr (JObj kvs)
           \<and> map_of kvs ''items'' = None
       \<longrightarrow> snd (snd (get_episodes env t fid)) = Inr (JArr []))"
proof -
  have a: "(\<forall>k m. http_get env (search_request env (Suc t) term) = Inl (RequestException k m)
       \<longrightarrow> snd (snd (search_podcasts env t term)) = Inr (JArr []))
   \<and> (\<forall>r. http_get env (search_request env (Suc t) term) = Inr r
           \<and> 400 \<le> status_code r \<and> status_code r < 600
       \<longrightarrow> snd (snd (search_podcasts env t term)) = Inr (JArr []))
   \<and> (\<forall>r kvs. http_get env (search_request env (Suc t) term) = Inr r
           \<and> raise_for_status r = None \<and> json_result r = Inr (JObj kvs)
           \<and> map_of kvs ''feeds'' = None
       \<longrightarrow> snd (snd (search_podcasts env t term)) = Inr (JArr []))"
    by (rule degrade_generic) (simp_all add: search_podcasts_result)
  have b: "(\<forall>k m. http_get env (episodes_request env t fid) = Inl (RequestException k m)
       \<longrightarrow> snd (snd (get_episodes env t fid)) = Inr (JArr []))
   \<and> (\<forall>r. http_get env (episodes_request env t fid) = Inr r
           \<and> 400 \<le> status_code r \<and> status_code r < 600
       \<longrightarrow> snd (snd (get_episodes env t fid)) = Inr (JArr []))
   \<and> (\<forall>r kvs. http_get env (episodes_request env t fid) = Inr r
           \<and> raise_for_status r = None \<and> json_result r = Inr (JObj kvs)
           \<and> map_of kvs ''items'' = None
       \<longrightarrow> snd (snd (get_episodes env t fid)) = Inr (JArr []))"
    by (rule degrade_generic) (simp_all add: get_episodes_result)
  from a b show ?thesis by blast
qed

theorem catalog_degrade_to_empty_witness:
  "snd (snd (search_podcasts (demo_env timeout_net) 0 ''x'')) = Inr (JArr [])
   \<and> snd (snd (search_podcasts (demo_env busy_net) 0 ''x'')) = Inr (JArr [])
   \<and> snd (snd (search_podcasts (demo_env empty_net) 0 ''x'')) = Inr (JArr [])
   \<and> snd (snd (get_episodes (demo_env timeout_net) 0 (JInt 7))) = Inr (JArr [])
   \<and> snd (snd (get_episodes (demo_env busy_net) 0 (JInt 7))) = Inr (JArr [])
   \<and> snd (snd (get_episodes (demo_env empty_net) 0 (JInt 7))) = Inr (JArr [])"
  using catalog_degrade_to_empty [of "demo_env timeout_net" 0 "''x''" "JInt 7"]
    catalog_degrade_to_empty [of "demo_env busy_net" 0 "''x''" "JInt 7"]
    catalog_degrade_to_empty [of "demo_env empty_net" 0 "''x''" "JInt 7"]
  by (simp add: demo_env_def timeout_net_def busy_net_def empty_net_def demo_response_def
      raise_for_status_def)

subsection \<open>The temporary file\<close>

lemma cleanup_ok:
  assumes "stat_fault env temp_audio = None" "unlink_fault env temp_audio = None"
  shows "fst (cleanup env fs) temp_audio = None" "snd (cleanup env fs) = None"
  using assms by (simp_all add: cleanup_def)

lemma cleanup_cases:
  "fst (cleanup env fs) temp_audio = None
   \<or> (\<exists>e. snd (cleanup env fs) = Some e
          \<and> (stat_fault env temp_audio = Some e \<or> unlink_fault env temp_audio = Some e))"
  by (auto simp: cleanup_def split: option.splits)

lemma main_after_setup:
  assumes "mkdir_fault env = None" "output_path_of env a = Inr out"
  shows "fst (transcribe_podcast_main env (Inr a) fs) = fst (main_try env a out fs)"
    and "fst (snd (transcribe_podcast_main env (Inr a) fs))
           = fst (cleanup env (fst (snd (main_try env a out fs))))"
    and "snd (snd (transcribe_podcast_main env (Inr a) fs))
           = (case snd (cleanup env (fst (snd (main_try env a out fs)))) of
                Some e \<Rightarrow> Inl e
              | None \<Rightarrow> snd (snd (main_try env a out fs)))"
  using assms
  by (simp_all add: transcribe_podcast_main_def split: prod.splits option.splits)

lemma main_setup_fails:
  assumes "mkdir_fault env = Some e \<or> (mkdir_fault env = None \<and> output_path_of env a = Inl e)"
  shows "transcribe_podcast_main env (Inr a) fs = ([], fs, Inl e)"
  using assms by (auto simp: transcribe_podcast_main_def)

text \<open>
  C1 as amended: when the steps before the \<^verbatim>\<open>try\<close> statement (parsing the command
  line, creating the directory, computing the output path) and the two calls of the \<^verbatim>\<open>finally\<close> block
  (\<^verbatim>\<open>exists\<close>, \<^verbatim>\<open>unlink\<close>) do not raise, the temporary audio file does not exist
  after \<^verbatim>\<open>main\<close>, whatever the download, the speech model and the writes did and
  however the \<^verbatim>\<open>try\<close> block ended. If the file still exists after \<^verbatim>\<open>main\<close>, then
  \<^verbatim>\<open>main\<close> ended with the exception raised by one of those steps.
\<close>

theorem temp_file_absent_unless_cleanup_fails:
  "(parsed = Inr a \<and> mkdir_fault env = None \<and> output_path_of env a = Inr out
      \<and> stat_fault env temp_audio = None \<and> unlink_fault env temp_audio = None
    \<longrightarrow> fst (snd (transcribe_podcast_main env parsed fs)) temp_audio = None)
   \<and> (fst (snd (transcribe_podcast_main env parsed fs)) temp_audio \<noteq> None
    \<longrightarrow> (\<exists>e. snd (snd (transcribe_podcast_main env parsed fs)) = Inl e
             \<and> (parsed = Inl e
                 \<or> (\<exists>b. parsed = Inr b
                       \<and> (mkdir_fault env = Some e \<or> output_path_of env b = Inl e
                           \<or> stat_fault env temp_audio = Some e
                           \<or> unlink_fault env temp_audio = Some e)))))"
proof (intro conjI impI)
  assume "parsed = Inr a \<and> mkdir_fault env = None \<and> output_path_of env a = Inr out
      \<and> stat_fault env temp_audio = None \<and> unlink_fault env temp_audio = None"
  then show "fst (snd (transcribe_podcast_main env parsed fs)) temp_audio = None"
    by (simp add: main_after_setup cleanup_ok)
next
  assume left: "fst (snd (transcribe_podcast_main env parsed fs)) temp_audio \<noteq> None"
  show "\<exists>e. snd (snd (transcribe_podcast_main env parsed fs)) = Inl e
             \<and> (parsed = Inl e
                 \<or> (\<exists>b. parsed = Inr b
                       \<and> (mkdir_fault env = Some e \<or> output_path_of env b = Inl e
                           \<or> stat_fault env temp_audio = Some e
                           \<or> unlink_fault env temp_audio = Some e)))"
  proof (cases parsed)
    case (Inl e)
    then show ?thesis by (simp add: transcribe_podcast_main_def)
  next
    case (Inr b)
    note parsed = this
    show ?thesis
    proof (cases "mkdir_fault env")
      case (Some e)
      then show ?thesis using parsed by (simp add: main_setup_fails)
    next
      case None
      show ?thesis
      proof (cases "output_path_of env b")
        case (Inl e)
        with None show ?thesis using parsed by (simp add: main_setup_fails)
      next
        case (Inr path)
        with left None parsed
        have "fst (cleanup env (fst (snd (main_try env b path fs)))) temp_audio \<noteq> None"
          by (simp add: main_after_setup)
        with cleanup_cases [of env "fst (snd (main_try env b path fs))"] obtain e where
          "snd (cleanup env (fst (snd (main_try env b path fs)))) = Some e"
          "stat_fault env temp_audio = Some e \<or> unlink_fault env temp_audio = Some e"
          by blast
        then show ?thesis using None Inr parsed by (auto simp: main_after_setup)
      qed
    qed
  qed
qed

lemmas demo_run_defs =
  transcribe_podcast_main_def main_try_def cleanup_def transcribe_audio_def
  transcribe_except_def download_audio_def download_except_def
  demo_env_def demo_response_def raise_for_status_def content_length_def
  demo_args_def output_path_of_def get_output_filename_def temp_audio_def

theorem temp_file_absent_unless_cleanup_fails_witness:
  "(snd (snd (transcribe_podcast_main (demo_env audio_net) (Inr demo_args) Map.empty)) = Inr ()
    \<and> fst (snd (main_try (demo_env audio_net) demo_args ''out.txt'' Map.empty)) temp_audio
         = Some [1, 2, 3]
    \<and> fst (snd (transcribe_podcast_main (demo_env audio_net) (Inr demo_args) Map.empty))
         temp_audio = None)
   \<and> (snd (snd (transcribe_podcast_main (demo_env broken_net) (Inr demo_args) Map.empty))
         = Inl (SystemExit 1)
    \<and> fst (snd (main_try (demo_env broken_net) demo_args ''out.txt'' Map.empty)) temp_audio
         = Some [1, 2]
    \<and> fst (snd (transcribe_podcast_main (demo_env broken_net) (Inr demo_args) Map.empty))
         temp_audio = None)
   \<and> (snd (snd (transcribe_podcast_main asr_fail_env (Inr demo_args) Map.empty))
         = Inl (SystemExit 1)
    \<and> fst (snd (main_try asr_fail_env demo_args ''out.txt'' Map.empty)) temp_audio
         = Some [1, 2, 3]
    \<and> fst (snd (transcribe_podcast_main asr_fail_env (Inr demo_args) Map.empty))
         temp_audio = None)
   \<and> (snd (snd (transcribe_podcast_main persist_fail_env (Inr demo_args) Map.empty))
         = Inl (SystemExit 1)
    \<and> fst (snd (main_try persist_fail_env demo_args ''out.txt'' Map.empty)) temp_audio
         = Some [1, 2, 3]
    \<and> fst (snd (transcribe_podcast_main persist_fail_env (Inr demo_args) Map.empty))
         temp_audio = None)"
  using
    temp_file_absent_unless_cleanup_fails
      [of "Inr demo_args" demo_args "demo_env audio_net" "''out.txt''" Map.empty]
    temp_file_absent_unless_cleanup_fails
      [of "Inr demo_args" demo_args "demo_env broken_net" "''out.txt''" Map.empty]
    temp_file_absent_unless_cleanup_fails
      [of "Inr demo_args" demo_args asr_fail_env "''out.txt''" Map.empty]
    temp_file_absent_unless_cleanup_fails
      [of "Inr demo_args" demo_args persist_fail_env "''out.txt''" Map.empty]
  by (simp add: demo_run_defs audio_net_def broken_net_def asr_fail_env_def
      persist_fail_env_def)

text \<open>
  In a directory that is not writable, with a writable temporary file left by an earlier
  run, the download and the transcription go through, the transcript cannot be created,
  and \<^verbatim>\<open>unlink\<close> in the \<^verbatim>\<open>finally\<close> block raises: the temporary file is still there
  after \<^verbatim>\<open>main\<close>, which ends with that exception.
\<close>

theorem temp_file_left_behind:
  "fst (snd (transcribe_podcast_main unwritable_dir_env (Inr default_args) stale_files))
     temp_audio = Some [1, 2, 3]
   \<and> snd (snd (transcribe_podcast_main unwritable_dir_env (Inr default_args) stale_files))
       = Inl (OSError ''Permission denied'')
   \<and> output_path_of unwritable_dir_env default_args = Inr ''transcripts/ep_transcript.txt''
   \<and> snd (snd (main_try unwritable_dir_env default_args ''transcripts/ep_transcript.txt''
                  stale_files))
       = Inl (SystemExit 1)
   \<and> last (fst (transcribe_podcast_main unwritable_dir_env (Inr default_args) stale_files))
       = Stderr [Lit ''Error during transcription: Permission denied'']"
  by (simp add: demo_run_defs audio_net_def unwritable_dir_env_def persist_fail_env_def
      default_args_def stale_files_def get_output_filename_def basename_def
      splitext_root_def)

subsection \<open>Timeouts\<close>

text \<open>
  C8: the two catalog requests carry \<^verbatim>\<open>timeout=10\<close>; the audio request is built
  without a timeout argument.
\<close>

theorem audio_request_has_no_timeout:
  "req_timeout (search_request env t term) = Some 10
   \<and> req_timeout (episodes_request env t fid) = Some 10
   \<and> req_timeout (audio_request url) = None"
  by (simp add: search_request_def episodes_request_def audio_request_def)

subsection \<open>Download progress\<close>

lemma progress_of_append: "progress_of (xs @ ys) = progress_of xs @ progress_of ys"
  by (induction xs rule: progress_of.induct) simp_all

lemma write_chunks_Data:
  "fst (write_chunks (Data d # rest) c n)
     = Progress (n + length d) # fst (write_chunks rest (c @ d) (n + length d))"
  "fst (snd (write_chunks (Data d # rest) c n))
     = fst (snd (write_chunks rest (c @ d) (n + length d)))"
  "snd (snd (write_chunks (Data d # rest) c n))
     = snd (snd (write_chunks rest (c @ d) (n + length d)))"
  by (simp_all split: prod.splits)

lemma write_chunks_sorted: "sorted (n # progress_of (fst (write_chunks items content n)))"
proof (induction items arbitrary: content n)
  case Nil
  then show ?case by simp
next
  case (Cons it items)
  show ?case
  proof (cases it)
    case (Data d)
    have "sorted ((n + length d) # progress_of (fst (write_chunks items (content @ d) (n + length d))))"
      by (rule Cons.IH)
    then show ?thesis using Data by (auto simp: write_chunks_Data simp del: write_chunks.simps)
  next
    case (Fail e)
    then show ?thesis by simp
  qed
qed

lemma write_chunks_ok:
  "snd (snd (write_chunks items content n)) = None \<Longrightarrow>
   \<exists>chunks. items = map Data chunks
     \<and> fst (snd (write_chunks items content n)) = content @ concat chunks
     \<and> length (progress_of (fst (write_chunks items content n))) = length chunks
     \<and> last (n # progress_of (fst (write_chunks items content n))) = n + length (concat chunks)"
proof (induction items arbitrary: content n)
  case Nil
  then show ?case by simp
next
  case (Cons it items)
  show ?case
  proof (cases it)
    case (Data d)
    with Cons.prems have "snd (snd (write_chunks items (content @ d) (n + length d))) = None"
      by (simp add: write_chunks_Data del: write_chunks.simps)
    from Cons.IH [OF this] obtain chunks where
      c: "items = map Data chunks"
        "fst (snd (write_chunks items (content @ d) (n + length d))) = (content @ d) @ concat chunks"
        "length (progress_of (fst (write_chunks items (content @ d) (n + length d)))) = length chunks"
        "last ((n + length d) # progress_of (fst (write_chunks items (content @ d) (n + length d))))
           = (n + length d) + length (concat chunks)"
      by blast
    have a1: "it # items = map Data (d # chunks)" using Data c(1) by simp
    have a2: "fst (snd (write_chunks (it # items) content n)) = content @ concat (d # chunks)"
      using Data c(2) by (simp add: write_chunks_Data del: write_chunks.simps)
    have a3: "length (progress_of (fst (write_chunks (it # items) content n))) = length (d # chunks)"
      using Data c(3) by (simp add: write_chunks_Data del: write_chunks.simps)
    have a4: "last (n # progress_of (fst (write_chunks (it # items) content n)))
        = n + length (concat (d # chunks))"
      using Data c(4) by (simp add: write_chunks_Data del: write_chunks.simps)
    show ?thesis by (rule exI [of _ "d # chunks"]) (intro conjI a1 a2 a3 a4)
  next
    case (Fail e)
    with Cons.prems show ?thesis by simp
  qed
qed

lemma download_except_progress:
  "progress_of (fst (download_except evs fs e)) = progress_of evs"
  by (simp add: download_except_def progress_of_append)

lemma download_except_not_True: "snd (snd (download_except evs fs e)) \<noteq> Inr True"
  by (simp add: download_except_def)

text \<open>
  C9: the values shown by the progress bar during a download never decrease, whatever
  the outcome; after a successful download there is one update per chunk, and the last
  value equals the size of the destination file, which holds exactly the chunks streamed.
\<close>

theorem download_progress:
  "sorted (0 # progress_of (fst (download_audio env url path fs)))
   \<and> (snd (snd (download_audio env url path fs)) = Inr True \<longrightarrow>
        (\<exists>resp chunks. http_get env (audio_request url) = Inr resp
           \<and> body_stream resp = map Data chunks
           \<and> fst (snd (download_audio env url path fs)) path = Some (concat chunks)
           \<and> length (progress_of (fst (download_audio env url path fs))) = length chunks
           \<and> last (0 # progress_of (fst (download_audio env url path fs)))
               = length (concat chunks)))"
proof (cases "http_get env (audio_request url)")
  case (Inl e)
  then show ?thesis
    by (simp add: download_audio_def download_except_progress download_except_not_True)
next
  case (Inr resp)
  note resp = this
  show ?thesis
  proof (cases "raise_for_status resp = None \<and> (\<exists>n. content_length resp = Inr n)
                \<and> open_fault env path = None")
    case False
    then show ?thesis using resp
      by (auto simp: download_audio_def download_except_progress download_except_not_True
          split: option.splits sum.splits)
  next
    case True
    obtain evs content r where w: "write_chunks (body_stream resp) [] 0 = (evs, content, r)"
      by (metis prod_cases3)
    have s: "sorted (0 # progress_of evs)"
      using write_chunks_sorted [of 0 "body_stream resp" "[]"] w by simp
    show ?thesis
    proof (cases r)
      case (Some e)
      then show ?thesis using resp True w s
        by (auto simp: download_audio_def download_except_progress download_except_not_True)
    next
      case None
      with w have "snd (snd (write_chunks (body_stream resp) [] 0)) = None" by simp
      from write_chunks_ok [OF this] w obtain chunks where
        "body_stream resp = map Data chunks" "content = concat chunks"
        "length (progress_of evs) = length chunks"
        "last (0 # progress_of evs) = length (concat chunks)"
        by auto
      then show ?thesis using resp True w s None
        by (auto simp: download_audio_def)
    qed
  qed
qed

theorem download_progress_witness:
  "snd (snd (download_audio (demo_env audio_net) ''u'' temp_audio Map.empty)) = Inr True
   \<and> progress_of (fst (download_audio (demo_env audio_net) ''u'' temp_audio Map.empty)) = [2, 3]
   \<and> fst (snd (download_audio (demo_env audio_net) ''u'' temp_audio Map.empty)) temp_audio
       = Some [1, 2, 3]
   \<and> sorted (0 # progress_of (fst (download_audio (demo_env audio_net) ''u'' temp_audio Map.empty)))
   \<and> last (0 # progress_of (fst (download_audio (demo_env audio_net) ''u'' temp_audio Map.empty)))
       = 3"
  using download_progress [of "demo_env audio_net" "''u''" temp_audio Map.empty]
  by (simp add: download_audio_def demo_env_def audio_net_def demo_response_def
      raise_for_status_def content_length_def)

subsection \<open>Failures after a successful transcription\<close>

lemma main_try_persist:
  assumes d: "download_audio env (arg_url a) temp_audio fs = (evs, fs1, Inr True)"
    and l: "load_model env (arg_model a) = None"
    and t: "transcribe env (arg_model a) (fs1 temp_audio) = Inr txt"
    and p: "open_fault env out = Some e
            \<or> (open_fault env out = None
                \<and> write_fault env out = Some e)"
    and e: "is_Exception e"
  shows "snd (snd (main_try env a out fs)) = Inl (SystemExit 1)
         \<and> last (fst (main_try env a out fs))
             = Stderr [Lit (''Error during transcription: '' @ exn_str e)]"
  using p
proof
  assume "open_fault env out = Some e"
  then show ?thesis using d l t e
    by (simp add: main_try_def transcribe_audio_def transcribe_except_def)
next
  assume "open_fault env out = None
          \<and> write_fault env out = Some e"
  then show ?thesis using d l t e
    by (simp add: main_try_def transcribe_audio_def transcribe_except_def)
qed

text \<open>
  C7 as amended: when the download and the speech model succeed and opening or writing
  the output file raises an exception, the failure is printed by the one handler of
  \<^verbatim>\<open>transcribe_audio\<close> as \<^verbatim>\<open>Error during transcription: ...\<close> and the \<^verbatim>\<open>try\<close>
  block ends with \<^verbatim>\<open>sys.exit(1)\<close>; when \<^verbatim>\<open>exists\<close> and \<^verbatim>\<open>unlink\<close> in the
  \<^verbatim>\<open>finally\<close> block do not raise, \<^verbatim>\<open>main\<close> exits with status 1 and the temporary file
  is gone.
\<close>

theorem persist_failure_reported_as_transcription:
  assumes "mkdir_fault env = None"
    and "output_path_of env a = Inr out"
    and "snd (snd (download_audio env (arg_url a) temp_audio fs)) = Inr True"
    and "load_model env (arg_model a) = None"
    and "transcribe env (arg_model a)
           (fst (snd (download_audio env (arg_url a) temp_audio fs)) temp_audio) = Inr txt"
    and "open_fault env out = Some e
         \<or> (open_fault env out = None
             \<and> write_fault env out = Some e)"
    and "is_Exception e"
  shows "last (fst (transcribe_podcast_main env (Inr a) fs))
           = Stderr [Lit (''Error during transcription: '' @ exn_str e)]
         \<and> snd (snd (main_try env a out fs)) = Inl (SystemExit 1)
         \<and> (stat_fault env temp_audio = None \<and> unlink_fault env temp_audio = None \<longrightarrow>
              snd (snd (transcribe_podcast_main env (Inr a) fs)) = Inl (SystemExit 1)
              \<and> fst (snd (transcribe_podcast_main env (Inr a) fs)) temp_audio = None)"
proof -
  obtain evs fs1 r where d: "download_audio env (arg_url a) temp_audio fs = (evs, fs1, r)"
    by (metis prod_cases3)
  with assms(3) have d': "download_audio env (arg_url a) temp_audio fs = (evs, fs1, Inr True)"
    by simp
  have t: "transcribe env (arg_model a) (fs1 temp_audio) = Inr txt"
    using assms(5) d by simp
  from main_try_persist [OF d' assms(4) t assms(6) assms(7)]
  show ?thesis
    using assms(1) assms(2) by (simp add: main_after_setup cleanup_ok)
qed

theorem persist_failure_reported_as_transcription_witness:
  "last (fst (transcribe_podcast_main persist_fail_env (Inr demo_args) Map.empty))
     = Stderr [Lit ''Error during transcription: Permission denied'']
   \<and> snd (snd (main_try persist_fail_env demo_args ''out.txt'' Map.empty)) = Inl (SystemExit 1)
   \<and> snd (snd (transcribe_podcast_main persist_fail_env (Inr demo_args) Map.empty))
       = Inl (SystemExit 1)
   \<and> fst (snd (transcribe_podcast_main persist_fail_env (Inr demo_args) Map.empty)) temp_audio
       = None"
  using persist_failure_reported_as_transcription
    [of persist_fail_env demo_args "''out.txt''" Map.empty "''hello world''"
      "OSError ''Permission denied''"]
  by (simp add: demo_run_defs audio_net_def persist_fail_env_def)

text \<open>
  A failed write and a failed transcription that raise the same error leave the same
  output, the same exit status and the same files: nothing tags the failure as a persist
  failure.
\<close>

theorem persist_failure_not_tagged:
  "transcribe_podcast_main persist_fail_env (Inr demo_args) Map.empty
     = transcribe_podcast_main asr_fail_env (Inr demo_args) Map.empty
   \<and> snd (snd (transcribe_podcast_main persist_fail_env (Inr demo_args) Map.empty))
       = Inl (SystemExit 1)
   \<and> last (fst (transcribe_podcast_main persist_fail_env (Inr demo_args) Map.empty))
       = Stderr [Lit ''Error during transcription: Permission denied'']"
  by (simp add: demo_run_defs audio_net_def persist_fail_env_def asr_fail_env_def)

subsection \<open>Credentials at startup\<close>

lemma strip_q: "py_strip ''q'' = ''q''"
  by (simp add: py_strip_def py_isspace_def)

lemma lower_q: "py_lower ''q'' = ''q''"
  by (simp add: py_lower_def py_lower_char_def)

lemma strip_x: "py_strip ''x'' = ''x''"
  by (simp add: py_strip_def py_isspace_def)

lemma lower_x: "py_lower ''x'' = ''x''"
  by (simp add: py_lower_def py_lower_char_def)

lemma missing_key_is_fatal:
  "falsy_opt (API_KEY env) \<Longrightarrow>
   podcast_search_main env stdin
     = ([Stderr [Lit ''Error: PODCAST_INDEX_API_KEY not found in .env file'']],
        Inl (SystemExit 1))"
  by (simp add: podcast_search_main_def)

text \<open>
  C5: with the key set and the secret missing, \<^verbatim>\<open>main\<close> does not exit at startup. It
  prompts; on \<^verbatim>\<open>q\<close> it returns normally, and on a search term it sends a request signed
  with the text \<^verbatim>\<open>None\<close> in place of the secret.
\<close>

theorem missing_secret_not_fatal:
  "API_SECRET no_secret_env = None
   \<and> podcast_search_main no_secret_env [''q''] = ([Prompt search_prompt], Inr ())
   \<and> HttpGet (search_request no_secret_env 1 ''x'')
       \<in> set (fst (podcast_search_main no_secret_env [''x'']))
   \<and> req_headers (search_request no_secret_env 1 ''x'')
       = get_headers (Some ''key'') None 1700000001"
  by (simp add: podcast_search_main_def no_secret_env_def demo_env_def strip_q lower_q
      strip_x lower_x Let_def emit_def search_podcasts_def fetch_field_def timeout_net_def
      search_request_def)

subsection \<open>The search prompt\<close>

lemma lower_Nil: "py_lower [] = []"
  by (simp add: py_lower_def)

text \<open>
  C10: a line that is empty once stripped is not a quit and is not asked again: the
  loop prints the search banner and sends the search request with the empty term.
\<close>

theorem empty_term_is_searched:
  assumes "py_strip line = []"
  shows "take 5 (fst (search_loop env t (line # rest)))
    = [Prompt search_prompt,
       Stdout [Lit (NL @ ''Searching for '' @ QT @ QT @ ''...'')],
       Stdout [Lit (''Making request to: '' @ BASE_URL @ ''/search/byterm'')],
       Stdout [Lit ''With headers: '',
               Val (JObj (map header_json
                      (get_headers (API_KEY env) (API_SECRET env) (clock env t))))],
       HttpGet (search_request env (Suc t) [])]"
  using assms
  by (simp add: lower_Nil Let_def emit_def search_podcasts_def
      split: sum.splits prod.splits)

theorem empty_term_is_searched_witness:
  "take 5 (fst (search_loop (demo_env timeout_net) 0 [''  '']))
    = [Prompt search_prompt,
       Stdout [Lit (NL @ ''Searching for '' @ QT @ QT @ ''...'')],
       Stdout [Lit (''Making request to: '' @ BASE_URL @ ''/search/byterm'')],
       Stdout [Lit ''With headers: '',
               Val (JObj (map header_json
                      (get_headers (API_KEY (demo_env timeout_net))
                         (API_SECRET (demo_env timeout_net)) (clock (demo_env timeout_net) 0))))],
       HttpGet (search_request (demo_env timeout_net) (Suc 0) [])]"
  using empty_term_is_searched [of "''  ''" "demo_env timeout_net" 0 "[]"]
  by (simp add: py_strip_def py_isspace_def)

subsection \<open>The selection prompt\<close>

lemma emit_emit: "emit xs (emit ys r) = emit (xs @ ys) r"
  by (simp add: emit_def)

lemma char_of_B: "char_of (66::nat) = CHR ''B''" "char_of (98::nat) = CHR ''b''"
  by (simp_all add: char_of_def bit_0)

lemma lower_char_b: "py_lower_char c = CHR ''b'' \<Longrightarrow> c = CHR ''b'' \<or> c = CHR ''B''"
proof -
  assume a: "py_lower_char c = CHR ''b''"
  let ?n = "of_char c :: nat"
  have lt: "?n < 256" by (metis of_char_mod_256 mod_less_divisor zero_less_numeral)
  consider (up) "65 \<le> ?n \<and> ?n \<le> 90" | (lat) "\<not> (65 \<le> ?n \<and> ?n \<le> 90) \<and> 192 \<le> ?n \<and> ?n \<le> 222 \<and> ?n \<noteq> 215"
    | (other) "\<not> (65 \<le> ?n \<and> ?n \<le> 90) \<and> \<not> (192 \<le> ?n \<and> ?n \<le> 222 \<and> ?n \<noteq> 215)"
    by blast
  then show ?thesis
  proof cases
    case up
    with a have "char_of (?n + 32) = CHR ''b''" by (simp add: py_lower_char_def)
    then have "(of_char (char_of (?n + 32)) :: nat) = of_char CHR ''b''" by simp
    then have "(?n + 32) mod 256 = 98" by simp
    with up have "?n = 66" by simp
    then have "char_of ?n = (char_of (66::nat) :: char)" by simp
    then show ?thesis by (simp add: char_of_B)
  next
    case lat
    with a have "char_of (?n + 32) = CHR ''b''" by (simp add: py_lower_char_def)
    then have "(of_char (char_of (?n + 32)) :: nat) = of_char CHR ''b''" by simp
    then have "(?n + 32) mod 256 = 98" by simp
    with lat show ?thesis by simp
  next
    case other
    with a show ?thesis by (simp add: py_lower_char_def)
  qed
qed

lemma lower_b: "py_lower s = ''b'' \<Longrightarrow> s = ''b'' \<or> s = ''B''"
proof -
  assume a: "py_lower s = ''b''"
  then obtain c where s: "s = [c]" and c: "py_lower_char c = CHR ''b''"
    by (auto simp: py_lower_def map_eq_Cons_conv)
  from lower_char_b [OF c] s show ?thesis by simp
qed

lemma int_b: "py_int ''b'' = None" "py_int ''B'' = None"
  by (simp_all add: py_int_def int_strip_def int_isspace_def is_digit_def)

lemma int_not_b: "py_int s = Some n \<Longrightarrow> py_lower s \<noteq> ''b''"
  using lower_b [of s] int_b by auto

lemma lower_bB: "py_lower ''b'' = ''b''" "py_lower ''B'' = ''b''"
  by (simp_all add: py_lower_def py_lower_char_def char_of_B)

lemma int_Nil: "py_int [] = None"
  by (simp add: py_int_def int_strip_def)

lemma int_0: "py_int ''0'' = Some 0"
  by (simp add: py_int_def int_strip_def int_isspace_def is_digit_def digit_val_def)

lemma select_out_of_range:
  assumes "py_int (py_strip line) = Some n" "n < 1 \<or> min 5 (int (length ps)) < n"
  shows "select_loop env t ps (line # rest)
           = emit [Prompt select_prompt, invalid_selection] (select_loop env t ps rest)"
  using assms int_not_b [OF assms(1)]
  by (auto simp: Let_def emit_emit simp del: select_loop.simps(1))

lemma select_not_a_number:
  assumes "py_int (py_strip line) = None" "py_lower (py_strip line) \<noteq> ''b''"
  shows "select_loop env t ps (line # rest)
           = emit [Prompt select_prompt, not_a_number] (select_loop env t ps rest)"
  using assms by (simp add: Let_def emit_emit)

lemma select_back:
  assumes "py_strip line = ''b'' \<or> py_strip line = ''B''"
  shows "select_loop env t ps (line # rest) = emit [Prompt select_prompt] (search_loop env t rest)"
  using assms by (auto simp: Let_def lower_bB)

lemma get_episodes_hd:
  "\<exists>tl. fst (get_episodes env t fid) = HttpGet (episodes_request env t fid) # tl"
  by (simp add: get_episodes_def Let_def split: sum.splits)

lemma show_selected_hd:
  assumes "map_of kvs ''id'' = Some fid"
  shows "\<exists>tl. fst (show_selected env t (JObj kvs))
           = Stdout [Lit (NL @ ''Latest episodes for: ''),
                     Val (case map_of kvs ''title'' of None \<Rightarrow> JNull | Some v \<Rightarrow> v)]
             # HttpGet (episodes_request env t fid) # tl"
proof -
  obtain evs t' r where g: "get_episodes env t fid = (evs, t', r)" by (metis prod_cases3)
  with get_episodes_hd [of env t fid] obtain tl
    where "evs = HttpGet (episodes_request env t fid) # tl" by auto
  then show ?thesis using assms g
    by (auto simp: show_selected_def split: sum.splits)
qed

lemma select_in_range:
  assumes "py_int (py_strip line) = Some n" "1 \<le> n" "n \<le> min 5 (int (length ps))"
    "ps ! nat (n - 1) = JObj kvs" "map_of kvs ''id'' = Some fid"
  shows "take 3 (fst (select_loop env t ps (line # rest)))
           = [Prompt select_prompt,
              Stdout [Lit (NL @ ''Latest episodes for: ''),
                      Val (case map_of kvs ''title'' of None \<Rightarrow> JNull | Some v \<Rightarrow> v)],
              HttpGet (episodes_request env t fid)]"
proof -
  obtain evs t' r where s: "show_selected env t (JObj kvs) = (evs, t', r)"
    by (metis prod_cases3)
  with show_selected_hd [OF assms(5), of env t] obtain tl where
    evs: "evs = Stdout [Lit (NL @ ''Latest episodes for: ''),
                     Val (case map_of kvs ''title'' of None \<Rightarrow> JNull | Some v \<Rightarrow> v)]
             # HttpGet (episodes_request env t fid) # tl"
    by auto
  show ?thesis
    using assms(1-4) int_not_b [OF assms(1)] s evs
    by (auto simp: Let_def emit_def split: sum.splits)
qed

text \<open>
  C6: at the selection prompt with the results \<open>ps\<close> on display, the input \<^verbatim>\<open>0\<close>, any
  integer above \<open>min 5 (length ps)\<close>, any input that is not an integer (other than
  \<^verbatim>\<open>b\<close>), and the empty input are answered with a message and the prompt is asked again
  with the same results and nothing fetched; \<^verbatim>\<open>b\<close> and \<^verbatim>\<open>B\<close> go back to the search
  prompt; an integer \<open>n\<close> from 1 to \<open>min 5 (length ps)\<close> selects the \<open>n\<close>-th podcast,
  prints its title and requests the episodes of its feed id.
\<close>

theorem selection_validation:
  "(py_strip line = ''0'' \<longrightarrow>
      select_loop env t ps (line # rest)
        = emit [Prompt select_prompt, invalid_selection] (select_loop env t ps rest))
   \<and> (py_int (py_strip line) = Some n \<and> min 5 (int (length ps)) < n \<longrightarrow>
      select_loop env t ps (line # rest)
        = emit [Prompt select_prompt, invalid_selection] (select_loop env t ps rest))
   \<and> (py_int (py_strip line) = None \<and> py_lower (py_strip line) \<noteq> ''b'' \<longrightarrow>
      select_loop env t ps (line # rest)
        = emit [Prompt select_prompt, not_a_number] (select_loop env t ps rest))
   \<and> (py_strip line = [] \<longrightarrow>
      select_loop env t ps (line # rest)
        = emit [Prompt select_prompt, not_a_number] (select_loop env t ps rest))
   \<and> (py_strip line = ''b'' \<or> py_strip line = ''B'' \<longrightarrow>
      select_loop env t ps (line # rest) = emit [Prompt select_prompt] (search_loop env t rest))
   \<and> (py_int (py_strip line) = Some n \<and> 1 \<le> n \<and> n \<le> min 5 (int (length ps))
        \<and> ps ! nat (n - 1) = JObj kvs \<and> map_of kvs ''id'' = Some fid \<longrightarrow>
      take 3 (fst (select_loop env t ps (line # rest)))
        = [Prompt select_prompt,
           Stdout [Lit (NL @ ''Latest episodes for: ''),
                   Val (case map_of kvs ''title'' of None \<Rightarrow> JNull | Some v \<Rightarrow> v)],
           HttpGet (episodes_request env t fid)])"
proof (intro conjI impI)
  assume "py_strip line = ''0''"
  then have "py_int (py_strip line) = Some 0" by (simp add: int_0)
  then show "select_loop env t ps (line # rest)
        = emit [Prompt select_prompt, invalid_selection] (select_loop env t ps rest)"
    by (rule select_out_of_range) simp
next
  assume "py_int (py_strip line) = Some n \<and> min 5 (int (length ps)) < n"
  then show "select_loop env t ps (line # rest)
        = emit [Prompt select_prompt, invalid_selection] (select_loop env t ps rest)"
    using select_out_of_range by blast
next
  assume "py_int (py_strip line) = None \<and> py_lower (py_strip line) \<noteq> ''b''"
  then show "select_loop env t ps (line # rest)
        = emit [Prompt select_prompt, not_a_number] (select_loop env t ps rest)"
    using select_not_a_number by blast
next
  assume "py_strip line = []"
  then have "py_int (py_strip line) = None" "py_lower (py_strip line) \<noteq> ''b''"
    by (simp_all add: int_Nil py_lower_def)
  then show "select_loop env t ps (line # rest)
        = emit [Prompt select_prompt, not_a_number] (select_loop env t ps rest)"
    by (rule select_not_a_number)
next
  assume "py_strip line = ''b'' \<or> py_strip line = ''B''"
  then show "select_loop env t ps (line # rest)
        = emit [Prompt select_prompt] (search_loop env t rest)"
    by (rule select_back)
next
  assume "py_int (py_strip line) = Some n \<and> 1 \<le> n \<and> n \<le> min 5 (int (length ps))
        \<and> ps ! nat (n - 1) = JObj kvs \<and> map_of kvs ''id'' = Some fid"
  then show "take 3 (fst (select_loop env t ps (line # rest)))
        = [Prompt select_prompt,
           Stdout [Lit (NL @ ''Latest episodes for: ''),
                   Val (case map_of kvs ''title'' of None \<Rightarrow> JNull | Some v \<Rightarrow> v)],
           HttpGet (episodes_request env t fid)]"
    using select_in_range by blast
qed

lemma strip_plain:
  "py_strip ''0'' = ''0''" "py_strip ''6'' = ''6''" "py_strip ''abc'' = ''abc''"
  "py_strip [] = []" "py_strip ''b'' = ''b''" "py_strip '' B '' = ''B''" "py_strip ''1'' = ''1''"
  by (simp_all add: py_strip_def py_isspace_def)

lemma int_plain:
  "py_int ''6'' = Some 6" "py_int ''abc'' = None" "py_int ''1'' = Some 1"
  by (simp_all add: py_int_def int_strip_def int_isspace_def is_digit_def digit_val_def)

lemma lower_abc: "py_lower ''abc'' \<noteq> ''b''"
  by (simp add: py_lower_def)

theorem selection_validation_witness:
  "select_loop (demo_env timeout_net) 0 demo_podcasts [''0'']
     = emit [Prompt select_prompt, invalid_selection]
         (select_loop (demo_env timeout_net) 0 demo_podcasts [])
   \<and> select_loop (demo_env timeout_net) 0 demo_podcasts [''6'']
     = emit [Prompt select_prompt, invalid_selection]
         (select_loop (demo_env timeout_net) 0 demo_podcasts [])
   \<and> select_loop (demo_env timeout_net) 0 demo_podcasts [''abc'']
     = emit [Prompt select_prompt, not_a_number]
         (select_loop (demo_env timeout_net) 0 demo_podcasts [])
   \<and> select_loop (demo_env timeout_net) 0 demo_podcasts [[]]
     = emit [Prompt select_prompt, not_a_number]
         (select_loop (demo_env timeout_net) 0 demo_podcasts [])
   \<and> select_loop (demo_env timeout_net) 0 demo_podcasts [''b'']
     = emit [Prompt select_prompt] (search_loop (demo_env timeout_net) 0 [])
   \<and> select_loop (demo_env timeout_net) 0 demo_podcasts ['' B '']
     = emit [Prompt select_prompt] (search_loop (demo_env timeout_net) 0 [])
   \<and> take 3 (fst (select_loop (demo_env timeout_net) 0 demo_podcasts [''1'']))
     = [Prompt select_prompt,
        Stdout [Lit (NL @ ''Latest episodes for: ''), Val (JStr ''T'')],
        HttpGet (episodes_request (demo_env timeout_net) 0 (JInt 7))]"
  using selection_validation [of "''0''" "demo_env timeout_net" 0 demo_podcasts "[]" 0]
    selection_validation [of "''6''" "demo_env timeout_net" 0 demo_podcasts "[]" 6]
    selection_validation [of "''abc''" "demo_env timeout_net" 0 demo_podcasts "[]" 0]
    selection_validation [of "[]" "demo_env timeout_net" 0 demo_podcasts "[]" 0]
    selection_validation [of "''b''" "demo_env timeout_net" 0 demo_podcasts "[]" 0]
    selection_validation [of "'' B ''" "demo_env timeout_net" 0 demo_podcasts "[]" 0]
    selection_validation [of "''1''" "demo_env timeout_net" 0 demo_podcasts "[]" 1
      "[(''id'', JInt 7), (''title'', JStr ''T'')]" "JInt 7"]
  by (simp add: strip_plain int_plain int_0 lower_abc demo_podcasts_def
      del: select_loop.simps search_loop.simps)

end
